theory Spec2Isabelle
  imports Complex_Main
begin

section \<open>The ReadTheDocs loader: data model\<close>

text \<open>
  The loader of \<^verbatim>\<open>document_loaders/readthedocs.py\<close> works on the tree that
  the HTML parser library returns. A page element of that tree is a tag (a name, a
  dictionary of attributes, the children in document order), a text string, or a
  comment. The library's comment class is a subclass of its string class; the source
  tests for a comment first, and the datatype keeps the two apart.

  A Python string is modelled as \<open>string\<close>: one \<open>char\<close> stands for one
  character of the Python string, and \<open>length\<close> is Python's \<open>len\<close>.
\<close>

datatype node =
    Tag string "(string \<times> string) list" "node list"
  | NavigableString string
  | Comment string

type_synonym selector = "string \<times> (string \<times> string) list"

abbreviation NL :: char where
  "NL \<equiv> CHR 0x0A"

subsection \<open>What the source uses of the parser library's tree\<close>

text \<open>
  The descendants of an element in document order (depth first, a node before its
  children), the element itself left out: what \<^verbatim>\<open>find\<close>,
  \<^verbatim>\<open>find_all\<close> and \<^verbatim>\<open>strings\<close> iterate over.
\<close>

fun descendants :: "node \<Rightarrow> node list" where
  "descendants (Tag n a cs) = concat (map (\<lambda>c. c # descendants c) cs)"
| "descendants (NavigableString s) = []"
| "descendants (Comment s) = []"

text \<open>
  A tag matches a selector when its name is the selector's tag name and, for every
  key of the selector's attribute dictionary, the tag has that attribute with that
  value. The attribute dictionary of a tag is an association list read with
  \<open>map_of\<close>. (Only string values compared for equality are modelled, which is
  what the two built-in selectors use.)
\<close>

definition attrs_match :: "(string \<times> string) list \<Rightarrow> (string \<times> string) list \<Rightarrow> bool" where
  "attrs_match required tag_attrs =
     list_all (\<lambda>kv. map_of tag_attrs (fst kv) = Some (snd kv)) required"

fun matches :: "string \<Rightarrow> (string \<times> string) list \<Rightarrow> node \<Rightarrow> bool" where
  "matches tag attrs (Tag n a cs) = (n = tag \<and> attrs_match attrs a)"
| "matches tag attrs (NavigableString s) = False"
| "matches tag attrs (Comment s) = False"

text \<open>\<^verbatim>\<open>soup.find(tag, attrs)\<close>: the first matching descendant, or None.\<close>

definition soup_find :: "node \<Rightarrow> string \<Rightarrow> (string \<times> string) list \<Rightarrow> node option" where
  "soup_find soup tag attrs = find (matches tag attrs) (descendants soup)"

text \<open>\<^verbatim>\<open>section.find_all("a")\<close>: every descendant tag of that name.\<close>

definition find_all :: "node \<Rightarrow> string \<Rightarrow> node list" where
  "find_all section tag = filter (matches tag []) (descendants section)"

text \<open>
  \<^verbatim>\<open>el.strings\<close>: the text strings among the descendants, in document order;
  the library leaves comments out.
\<close>

fun string_of :: "node \<Rightarrow> string list" where
  "string_of (NavigableString s) = [s]"
| "string_of (Tag n a cs) = []"
| "string_of (Comment s) = []"

definition strings :: "node \<Rightarrow> string list" where
  "strings el = concat (map string_of (descendants el))"

text \<open>
  \<^verbatim>\<open>str.strip()\<close> removes the whitespace at both ends. The whitespace
  characters of Python below code point 256 are listed.
\<close>

definition isspace :: "char \<Rightarrow> bool" where
  "isspace c = (c \<in> set [CHR 0x09, CHR 0x0A, CHR 0x0B, CHR 0x0C, CHR 0x0D,
                           CHR 0x1C, CHR 0x1D, CHR 0x1E, CHR 0x1F, CHR 0x20,
                           CHR 0x85, CHR 0xA0])"

definition strip :: "string \<Rightarrow> string" where
  "strip s = rev (dropWhile isspace (rev (dropWhile isspace s)))"

text \<open>
  \<^verbatim>\<open>el.stripped_strings\<close>: the strings of \<open>strings\<close>, each stripped, those
  that are empty after stripping left out.
\<close>

definition stripped_strings :: "node \<Rightarrow> string list" where
  "stripped_strings el = filter (\<lambda>s. s \<noteq> []) (map strip (strings el))"

subsection \<open>Python's split and join\<close>

text \<open>
  \<^verbatim>\<open>text.split("\n")\<close> for a separator of one character: the segments
  between the separators, at least one segment, empty segments kept.
\<close>

fun split :: "char \<Rightarrow> string \<Rightarrow> string list" where
  "split sep [] = [[]]"
| "split sep (c # cs) =
     (if c = sep then [] # split sep cs
      else (case split sep cs of [] \<Rightarrow> [[c]] | w # ws \<Rightarrow> (c # w) # ws))"

text \<open>\<^verbatim>\<open>sep.join(xs)\<close>.\<close>

fun join :: "string \<Rightarrow> string list \<Rightarrow> string" where
  "join sep [] = []"
| "join sep [x] = x"
| "join sep (x # y # ys) = x @ sep @ join sep (y # ys)"

section \<open>The loader\<close>

record loader =
  file_path :: string
  encoding :: "string option"
  errors :: "string option"
  custom_html_tag :: "selector option"
  patterns :: "string list"
  bs_kwargs :: "(string \<times> string) list"
  exclude_index_pages :: bool

subsection \<open>The link ratio\<close>

text \<open>
  \<^verbatim>\<open>_get_link_ratio\<close>. Python divides the two lengths as floats; the model
  returns the exact quotient as a rational number. The float is that quotient rounded
  to the nearest double, rounding is monotone and 0, 0.5 and 1 are doubles, so the
  comparisons of the quotient with 0, 0.5 and 1 that the theorems below make are those
  of the float for every text shorter than \<open>2 ^ 53\<close> characters.
\<close>

definition get_link_ratio :: "node \<Rightarrow> rat" where
  "get_link_ratio section =
     (let links = find_all section ''a'';
          total_text = concat (stripped_strings section)
      in if length total_text = 0 then 0
         else
           (let link_text =
                  concat (concat (map (\<lambda>link. map strip (filter (\<lambda>s. s \<noteq> []) (strings link)))
                                      links))
            in of_nat (length link_text) / of_nat (length total_text)))"

subsection \<open>The recursive text getter\<close>

definition elements_to_skip :: "string list" where
  "elements_to_skip =
     [''script'', ''noscript'', ''canvas'', ''meta'', ''svg'', ''map'', ''area'',
      ''audio'', ''source'', ''track'', ''video'', ''embed'', ''object'', ''param'',
      ''picture'', ''iframe'', ''frame'', ''frameset'', ''noframes'', ''applet'',
      ''form'', ''button'', ''select'', ''base'', ''style'', ''img'']"

definition newline_elements :: "string list" where
  "newline_elements =
     [''p'', ''div'', ''ul'', ''ol'', ''li'', ''h1'', ''h2'', ''h3'', ''h4'', ''h5'',
      ''h6'', ''pre'', ''table'', ''tr'']"

text \<open>
  \<^verbatim>\<open>process_element\<close>, the branches in the order of the source: a comment or a
  tag of the skip list, a string, the line break, a tag of the newline list, any other
  tag.
\<close>

fun process_element :: "node \<Rightarrow> string" where
  "process_element (Comment s) = []"
| "process_element (NavigableString s) = s"
| "process_element (Tag n a cs) =
     (if n \<in> set elements_to_skip then []
      else if n = ''br'' then [NL]
      else if n \<in> set newline_elements then concat (map process_element cs) @ [NL]
      else concat (map process_element cs))"

definition get_clean_text :: "node \<Rightarrow> string" where
  "get_clean_text element = process_element element"

subsection \<open>Cleaning one page\<close>

text \<open>The default selectors, in the order the source lists them.\<close>

definition default_html_tags :: "selector list" where
  "default_html_tags =
     [(''div'', [(''role'', ''main'')]), (''main'', [(''id'', ''main-content'')])]"

definition html_tags :: "selector option \<Rightarrow> selector list" where
  "html_tags custom =
     (case custom of None \<Rightarrow> default_html_tags | Some c \<Rightarrow> default_html_tags @ [c])"

text \<open>
  The loop over the selectors: \<open>text\<close> is the result of the last \<open>find\<close> made,
  and the loop stops at the first result that is not None.
\<close>

fun find_loop :: "node \<Rightarrow> selector list \<Rightarrow> node option" where
  "find_loop soup [] = None"
| "find_loop soup (sel # rest) =
     (case soup_find soup (fst sel) (snd sel) of
        Some t \<Rightarrow> Some t
      | None \<Rightarrow> find_loop soup rest)"

definition locate :: "loader \<Rightarrow> node \<Rightarrow> node option" where
  "locate self soup = find_loop soup (rev (html_tags (custom_html_tag self)))"

text \<open>The last line of \<^verbatim>\<open>_clean_data\<close>: trim the empty lines.\<close>

definition trim_empty_lines :: "string \<Rightarrow> string" where
  "trim_empty_lines text = join [NL] (filter (\<lambda>t. t \<noteq> []) (split NL text))"

text \<open>
  \<^verbatim>\<open>_clean_data\<close> after the parse of its first line: \<open>soup\<close> is the parsed
  page.
\<close>

definition clean_soup :: "loader \<Rightarrow> node \<Rightarrow> string" where
  "clean_soup self soup =
     (let text =
            (case locate self soup of
               None \<Rightarrow> []
             | Some t \<Rightarrow>
                 if \<not> (exclude_index_pages self \<and> get_link_ratio t \<ge> 1 / 2)
                 then get_clean_text t
                 else [])
      in trim_empty_lines text)"

section \<open>Construction and loading\<close>

text \<open>
  The constructor and \<^verbatim>\<open>load\<close> call collaborators that are not part of the
  loader: the import of the parser library, the parser itself, the directory walker
  and the file reader. They are the fields of an environment, and each one that can
  raise returns a sum. \<open>Raised\<close> is an exception of a collaborator (an instance of
  Python's \<^verbatim>\<open>Exception\<close>); the other two are the ones the constructor raises
  itself.
\<close>

datatype exn = ImportError string | ValueError string | Raised string

record env =
  bs4_installed :: bool
  BeautifulSoup :: "string \<Rightarrow> (string \<times> string) list \<Rightarrow> exn + node"
  rglob :: "string \<Rightarrow> string \<Rightarrow> string list"
  is_dir :: "string \<Rightarrow> bool"
  open_read :: "string \<Rightarrow> string option \<Rightarrow> string option \<Rightarrow> exn + string"

record document =
  page_content :: string
  metadata :: "(string \<times> string) list"

text \<open>
  \<^verbatim>\<open>__init__\<close>: the import, then the probe parse of a fixed fragment with the
  caller's parser options, then the fields.
\<close>

definition init ::
  "env \<Rightarrow> string \<Rightarrow> string option \<Rightarrow> string option \<Rightarrow> selector option \<Rightarrow> string list \<Rightarrow>
   bool \<Rightarrow> (string \<times> string) list \<Rightarrow> exn + loader" where
  "init e path enc errs custom pats exclude kwargs =
     (if \<not> bs4_installed e
      then Inl (ImportError
        ''Could not import python packages. Please install it with `pip install beautifulsoup4`. '')
      else
        (case BeautifulSoup e ''<html><body>Parser builder library test.</body></html>'' kwargs of
           Inl ex \<Rightarrow> Inl (ValueError ''Parsing kwargs do not appear valid'')
         | Inr probe \<Rightarrow>
             Inr \<lparr>file_path = path, encoding = enc, errors = errs, custom_html_tag = custom,
                  patterns = pats, bs_kwargs = kwargs, exclude_index_pages = exclude\<rparr>))"

text \<open>\<^verbatim>\<open>_clean_data\<close>: the parse with the stored options, then the cleaning.\<close>

definition clean_data :: "env \<Rightarrow> loader \<Rightarrow> string \<Rightarrow> exn + string" where
  "clean_data e self data =
     (case BeautifulSoup e data (bs_kwargs self) of
        Inl ex \<Rightarrow> Inl ex
      | Inr soup \<Rightarrow> Inr (clean_soup self soup))"

text \<open>
  \<^verbatim>\<open>load\<close>. The state of the two loops is the list \<open>docs\<close> and, to state
  which files are read, the list of the paths given to \<^verbatim>\<open>open\<close> so far.
  An exception of the reader or of the parser ends the whole call.
\<close>

fun load_files ::
  "env \<Rightarrow> loader \<Rightarrow> string list \<Rightarrow> document list \<times> string list \<Rightarrow>
   (exn + document list) \<times> string list" where
  "load_files e self [] st = (Inr (fst st), snd st)"
| "load_files e self (p # ps) st =
     (if is_dir e p then load_files e self ps st
      else
        (case open_read e p (encoding self) (errors self) of
           Inl ex \<Rightarrow> (Inl ex, snd st @ [p])
         | Inr data \<Rightarrow>
             (case clean_data e self data of
                Inl ex \<Rightarrow> (Inl ex, snd st @ [p])
              | Inr text \<Rightarrow>
                  load_files e self ps
                    (fst st @ [\<lparr>page_content = text, metadata = [(''source'', p)]\<rparr>],
                     snd st @ [p]))))"

fun load_patterns ::
  "env \<Rightarrow> loader \<Rightarrow> string list \<Rightarrow> document list \<times> string list \<Rightarrow>
   (exn + document list) \<times> string list" where
  "load_patterns e self [] st = (Inr (fst st), snd st)"
| "load_patterns e self (file_pattern # rest) st =
     (case load_files e self (rglob e (file_path self) file_pattern) st of
        (Inl ex, opened) \<Rightarrow> (Inl ex, opened)
      | (Inr docs, opened) \<Rightarrow> load_patterns e self rest (docs, opened))"

definition load :: "env \<Rightarrow> loader \<Rightarrow> (exn + document list) \<times> string list" where
  "load e self = load_patterns e self (patterns self) ([], [])"

section \<open>Definitions used to state the properties\<close>



text \<open>
  A caller constructs the loader and then calls \<^verbatim>\<open>load\<close> on it; an exception
  of the constructor propagates, and \<^verbatim>\<open>load\<close> is not reached.
\<close>

definition construct_and_load ::
  "env \<Rightarrow> string \<Rightarrow> string option \<Rightarrow> string option \<Rightarrow> selector option \<Rightarrow> string list \<Rightarrow>
   bool \<Rightarrow> (string \<times> string) list \<Rightarrow> (exn + document list) \<times> string list" where
  "construct_and_load e path enc errs custom pats exclude kwargs =
     (case init e path enc errs custom pats exclude kwargs of
        Inl ex \<Rightarrow> (Inl ex, [])
      | Inr self \<Rightarrow> load e self)"

text \<open>The non-directory files that the walker yields, pattern by pattern.\<close>

definition matched_files :: "env \<Rightarrow> loader \<Rightarrow> string list" where
  "matched_files e self =
     concat (map (\<lambda>file_pattern. filter (\<lambda>p. \<not> is_dir e p) (rglob e (file_path self) file_pattern))
                 (patterns self))"

text \<open>
  Example inputs: a loader with the default arguments but the custom selector and the
  index-page flag, and the pages of the specification's testable properties, as the
  parser returns them (the root of a parsed page is the document object).
\<close>

definition example_loader :: "selector option \<Rightarrow> bool \<Rightarrow> loader" where
  "example_loader custom exclude =
     \<lparr>file_path = ''docs'', encoding = None, errors = None, custom_html_tag = custom,
      patterns = [''*.htm'', ''*.html''], bs_kwargs = [], exclude_index_pages = exclude\<rparr>"

definition document_of :: "node list \<Rightarrow> node" where
  "document_of cs = Tag ''[document]'' [] cs"

definition main_hello :: node where
  "main_hello =
     Tag ''div'' [(''role'', ''main'')]
       [Tag ''p'' [] [NavigableString ''Hello''], Tag ''p'' [] [NavigableString ''World'']]"

definition main_links :: node where
  "main_links =
     Tag ''div'' [(''role'', ''main'')] [Tag ''a'' [(''href'', ''x'')] [NavigableString ''All text'']]"

definition main_half_links :: node where
  "main_half_links =
     Tag ''div'' [(''role'', ''main'')]
       [Tag ''a'' [(''href'', ''x'')] [NavigableString ''ab''], NavigableString ''cd'']"

definition main_nested_links :: node where
  "main_nested_links =
     Tag ''div'' [(''role'', ''main'')]
       [Tag ''a'' [(''href'', ''x'')] [Tag ''a'' [(''href'', ''y'')] [NavigableString ''x'']]]"

definition main_script :: node where
  "main_script =
     Tag ''div'' [(''role'', ''main'')]
       [Tag ''p'' [] [NavigableString ''text'',
          Tag ''span'' [] [Tag ''script'' [] [NavigableString ''var x = 1;'']]]]"

definition section_custom :: node where
  "section_custom = Tag ''section'' [(''class'', ''main'')] [NavigableString ''custom'']"

definition main_content :: node where
  "main_content = Tag ''main'' [(''id'', ''main-content'')] [NavigableString ''content'']"

definition div_main :: node where
  "div_main = Tag ''div'' [(''role'', ''main'')] [NavigableString ''division'']"

text \<open>
  An example environment: the parser accepts no option but the empty list, the walker
  finds three paths for \<^verbatim>\<open>*.html\<close> (one of them a directory) and one of
  these again for \<^verbatim>\<open>a.*\<close>, and each of the two files holds one page.
\<close>

definition example_env :: env where
  "example_env =
     \<lparr>bs4_installed = True,
      BeautifulSoup = (\<lambda>data kwargs.
        if kwargs = []
        then Inr (document_of
               (if data = ''hello'' then [main_hello]
                else if data = ''links'' then [main_links] else []))
        else Inl (Raised ''TypeError'')),
      rglob = (\<lambda>root file_pattern.
        if file_pattern = ''*.html'' then [''docs/a.html'', ''docs/x.html'', ''docs/b.html'']
        else if file_pattern = ''a.*'' then [''docs/a.html'']
        else []),
      is_dir = (\<lambda>p. p = ''docs/x.html''),
      open_read = (\<lambda>p enc errs.
        if p = ''docs/a.html'' then Inr ''hello''
        else if p = ''docs/b.html'' then Inr ''links''
        else Inl (Raised ''FileNotFoundError''))\<rparr>"

lemmas example_defs =
  example_loader_def document_of_def main_hello_def main_links_def main_half_links_def
  main_nested_links_def main_script_def section_custom_def main_content_def div_main_def

lemmas eval_defs =
  example_defs soup_find_def attrs_match_def clean_soup_def trim_empty_lines_def
  get_clean_text_def elements_to_skip_def newline_elements_def locate_def html_tags_def
  default_html_tags_def get_link_ratio_def find_all_def stripped_strings_def strings_def
  strip_def isspace_def Let_def

section \<open>Splitting and joining\<close>

lemma split_not_Nil: "split sep s \<noteq> []"
  by (induction s) (auto split: list.splits)

lemma join_split: "join [sep] (split sep s) = s"
proof (induction s)
  case Nil
  show ?case by simp
next
  case (Cons c cs)
  obtain w ws where ws: "split sep cs = w # ws"
    using split_not_Nil [of sep cs] by (cases "split sep cs") auto
  show ?case
  proof (cases "c = sep")
    case True
    with Cons ws show ?thesis by simp
  next
    case False
    with Cons ws show ?thesis by (cases ws) auto
  qed
qed

lemma split_no_sep: "w \<in> set (split sep s) \<Longrightarrow> sep \<notin> set w"
  by (induction s arbitrary: w) (auto split: if_splits list.splits)

lemma split_no_sep_word: "sep \<notin> set w \<Longrightarrow> split sep w = [w]"
  by (induction w) auto

lemma split_append_sep:
  "sep \<notin> set w \<Longrightarrow> split sep (w @ sep # rest) = w # split sep rest"
  by (induction w) auto

lemma split_join:
  "xs \<noteq> [] \<Longrightarrow> \<forall>w \<in> set xs. sep \<notin> set w \<Longrightarrow> split sep (join [sep] xs) = xs"
proof (induction xs rule: induct_list012)
  case 1
  then show ?case by simp
next
  case (2 x)
  then show ?case by (simp add: split_no_sep_word)
next
  case (3 x y ys)
  then show ?case by (simp add: split_append_sep)
qed

lemma last_join:
  "xs \<noteq> [] \<Longrightarrow> last xs \<noteq> [] \<Longrightarrow> join sep xs \<noteq> [] \<and> last (join sep xs) = last (last xs)"
  by (induction sep xs rule: join.induct) auto

lemma trim_split:
  "split NL (trim_empty_lines s) =
     (if filter (\<lambda>t. t \<noteq> []) (split NL s) = [] then [[]]
      else filter (\<lambda>t. t \<noteq> []) (split NL s))"
proof -
  let ?ys = "filter (\<lambda>t. t \<noteq> []) (split NL s)"
  have "\<forall>w \<in> set ?ys. NL \<notin> set w" by (auto dest: split_no_sep)
  then have "?ys \<noteq> [] \<Longrightarrow> split NL (join [NL] ?ys) = ?ys"
    by (rule split_join [rotated])
  then show ?thesis by (auto simp: trim_empty_lines_def)
qed

lemma trim_last: "trim_empty_lines s \<noteq> [] \<Longrightarrow> last (trim_empty_lines s) \<noteq> NL"
proof -
  assume ne: "trim_empty_lines s \<noteq> []"
  let ?ys = "filter (\<lambda>t. t \<noteq> []) (split NL s)"
  have ys: "?ys \<noteq> []" using ne by (auto simp: trim_empty_lines_def)
  then have "last ?ys \<in> set ?ys" by (rule last_in_set)
  then have l: "last ?ys \<noteq> []" "NL \<notin> set (last ?ys)"
    by (auto dest: split_no_sep)
  then have "last (last ?ys) \<in> set (last ?ys)" by simp
  with l have "last (last ?ys) \<noteq> NL" by metis
  with last_join [OF ys l(1), of "[NL]"] show ?thesis
    by (simp add: trim_empty_lines_def)
qed

section \<open>Normalization\<close>

text \<open>
  Claim C6. Normalization splits the extracted string on newline characters (the
  segments contain no newline and, joined with newlines, give the string back), drops
  exactly the segments that are the empty string, and joins the others with one
  newline: the segments of the result are the non-empty segments of the input, in
  order (a result with no segment at all is the empty string, which splits into one
  empty segment). A segment of whitespace only is not empty and is kept. The result
  does not end in a newline.
\<close>

theorem trim_empty_lines_segments:
  "trim_empty_lines s = join [NL] (filter (\<lambda>t. t \<noteq> []) (split NL s))
   \<and> join [NL] (split NL s) = s
   \<and> list_all (\<lambda>w. NL \<notin> set w) (split NL s)
   \<and> split NL (trim_empty_lines s) =
       (if filter (\<lambda>t. t \<noteq> []) (split NL s) = [] then [[]]
        else filter (\<lambda>t. t \<noteq> []) (split NL s))
   \<and> (if trim_empty_lines s = [] then True else last (trim_empty_lines s) \<noteq> NL)"
proof -
  have "list_all (\<lambda>w. NL \<notin> set w) (split NL s)"
    by (auto simp: list_all_iff dest: split_no_sep)
  then show ?thesis
    using trim_split [of s] trim_last [of s] join_split [of NL s]
    by (simp add: trim_empty_lines_def)
qed

theorem trim_empty_lines_segments_witness:
  "trim_empty_lines ('' '' @ [NL, NL] @ ''x'' @ [NL]) = '' '' @ [NL] @ ''x''
   \<and> split NL ('' '' @ [NL, NL] @ ''x'' @ [NL]) = ['' '', [], ''x'', []]
   \<and> split NL (trim_empty_lines ('' '' @ [NL, NL] @ ''x'' @ [NL])) = ['' '', ''x'']
   \<and> last (trim_empty_lines ('' '' @ [NL, NL] @ ''x'' @ [NL])) \<noteq> NL"
  using trim_empty_lines_segments [of "'' '' @ [NL, NL] @ ''x'' @ [NL]"]
  by (simp add: trim_empty_lines_def)

text \<open>
  Claim C7. Normalization is idempotent: normalizing a normalized string returns it
  unchanged.
\<close>

theorem trim_empty_lines_idempotent:
  "trim_empty_lines (trim_empty_lines s) = trim_empty_lines s"
proof -
  have "trim_empty_lines (trim_empty_lines s) =
        join [NL] (filter (\<lambda>t. t \<noteq> []) (split NL (trim_empty_lines s)))"
    by (simp add: trim_empty_lines_def)
  also have "\<dots> = join [NL] (filter (\<lambda>t. t \<noteq> []) (split NL s))"
    by (simp add: trim_split)
  finally show ?thesis by (simp add: trim_empty_lines_def)
qed

theorem trim_empty_lines_idempotent_witness:
  "trim_empty_lines (trim_empty_lines ([NL] @ ''a'' @ [NL, NL] @ ''b'' @ [NL])) = ''a'' @ [NL] @ ''b''
   \<and> trim_empty_lines ([NL] @ ''a'' @ [NL, NL] @ ''b'' @ [NL]) = ''a'' @ [NL] @ ''b''"
  using trim_empty_lines_idempotent [of "[NL] @ ''a'' @ [NL, NL] @ ''b'' @ [NL]"]
  by (simp add: trim_empty_lines_def)

section \<open>The main-content locator\<close>







section \<open>The recursive text getter\<close>

lemma lists_disjoint: "set elements_to_skip \<inter> set newline_elements = {}"
  by (simp add: elements_to_skip_def newline_elements_def)

lemma br_not_listed: "''br'' \<notin> set elements_to_skip \<and> ''br'' \<notin> set newline_elements"
  by (simp add: elements_to_skip_def newline_elements_def)

lemma newline_not_skip: "n \<in> set newline_elements \<Longrightarrow> n \<notin> set elements_to_skip"
  using lists_disjoint by blast

lemma newline_not_br: "n \<in> set newline_elements \<Longrightarrow> n \<noteq> ''br''"
  using br_not_listed by blast

lemma process_newline:
  "n \<in> set newline_elements \<Longrightarrow>
   process_element (Tag n a cs) = concat (map process_element cs) @ [NL]"
  by (simp add: newline_not_skip newline_not_br)

lemma process_br: "process_element (Tag ''br'' a cs) = [NL]"
  using br_not_listed by simp



lemma clean_soup_located:
  "locate self soup = Some t \<Longrightarrow>
   clean_soup self soup =
     (if exclude_index_pages self \<and> 1 / 2 \<le> get_link_ratio t then []
      else trim_empty_lines (get_clean_text t))"
  by (simp add: clean_soup_def trim_empty_lines_def)

section \<open>The link ratio\<close>













section \<open>The claims about the text getter\<close>

lemma hello_text: "trim_empty_lines (get_clean_text main_hello) = ''Hello'' @ [NL] @ ''World''"
  by (simp add: eval_defs)

lemma hello_ratio: "get_link_ratio main_hello = 0"
  by (simp add: eval_defs)

text \<open>
  Claim C2. A tag whose name is in the block list (p, div, ul, ol, li, h1 to h6, pre,
  table, tr) contributes the texts of its children, concatenated, and then one
  newline. A \<open>br\<close> tag contributes one newline, whatever its children. For a page
  whose main subtree is \<^verbatim>\<open><div role="main"><p>Hello</p><p>World</p></div>\<close>,
  extraction and normalization give \<open>Hello\<close>, a newline, \<open>World\<close>, with the
  index-page filter on or off.
\<close>

theorem process_element_block:
  "(n \<in> set newline_elements \<longrightarrow>
      process_element (Tag n a cs) = concat (map process_element cs) @ [NL])
   \<and> set newline_elements =
       {''p'', ''div'', ''ul'', ''ol'', ''li'', ''h1'', ''h2'', ''h3'', ''h4'', ''h5'', ''h6'',
        ''pre'', ''table'', ''tr''}
   \<and> process_element (Tag ''br'' a cs) = [NL]
   \<and> (locate self soup = Some main_hello \<longrightarrow> clean_soup self soup = ''Hello'' @ [NL] @ ''World'')"
proof -
  have "set newline_elements =
       {''p'', ''div'', ''ul'', ''ol'', ''li'', ''h1'', ''h2'', ''h3'', ''h4'', ''h5'', ''h6'',
        ''pre'', ''table'', ''tr''}"
    by (simp add: newline_elements_def)
  moreover have "locate self soup = Some main_hello \<longrightarrow>
      clean_soup self soup = ''Hello'' @ [NL] @ ''World''"
    by (simp add: clean_soup_located hello_text hello_ratio)
  ultimately show ?thesis
    using process_newline [of n a cs] process_br [of a cs] by blast
qed

theorem process_element_block_witness:
  "process_element (Tag ''li'' [] [NavigableString ''a'', Tag ''br'' [] [], NavigableString ''b''])
     = ''a'' @ [NL] @ ''b'' @ [NL]
   \<and> locate (example_loader None True) (document_of [main_hello]) = Some main_hello
   \<and> clean_soup (example_loader None True) (document_of [main_hello]) = ''Hello'' @ [NL] @ ''World''
   \<and> clean_soup (example_loader None False) (document_of [main_hello]) = ''Hello'' @ [NL] @ ''World''"
  using
    process_element_block [of "''li''" "[]"
      "[NavigableString ''a'', Tag ''br'' [] [], NavigableString ''b'']"
      "example_loader None True" "document_of [main_hello]"]
    process_element_block [of "''li''" "[]" "[]"
      "example_loader None False" "document_of [main_hello]"]
  by (simp add: eval_defs)



text \<open>
  Claim C8, as stated, fails: \<open>br\<close> is in neither list, and a \<open>br\<close> tag is not
  transparent. It contributes a newline of its own and its children are not visited.
\<close>

theorem transparent_counterexample:
  "''br'' \<notin> set elements_to_skip \<and> ''br'' \<notin> set newline_elements
   \<and> process_element (Tag ''br'' [] [NavigableString ''x''])
       \<noteq> concat (map process_element [NavigableString ''x''])"
  by (simp add: elements_to_skip_def newline_elements_def)

text \<open>
  Claim C8, amended. The skip list and the block list are disjoint, and a tag whose
  name is in neither list and is not \<open>br\<close> is transparent: it contributes the
  concatenated texts of its children and nothing of its own. A \<open>br\<close> tag
  contributes one newline.
\<close>

theorem lists_disjoint_transparent:
  "set elements_to_skip \<inter> set newline_elements = {}
   \<and> (n \<notin> set elements_to_skip \<and> n \<notin> set newline_elements \<and> n \<noteq> ''br'' \<longrightarrow>
        process_element (Tag n a cs) = concat (map process_element cs))
   \<and> process_element (Tag ''br'' a cs) = [NL]"
  using lists_disjoint process_br [of a cs] by simp

theorem lists_disjoint_transparent_witness:
  "''span'' \<notin> set elements_to_skip \<and> ''span'' \<notin> set newline_elements
   \<and> process_element (Tag ''span'' [] [NavigableString ''a'', Tag ''em'' [] [NavigableString ''b'']])
       = ''ab''"
  using lists_disjoint_transparent [of "''span''" "[]"
      "[NavigableString ''a'', Tag ''em'' [] [NavigableString ''b'']]"]
  by (simp add: elements_to_skip_def newline_elements_def)

section \<open>The claims about the link ratio and the index-page filter\<close>








section \<open>Construction\<close>

text \<open>
  Claim C9. When the probe parse of the fixed fragment with the supplied parser options
  raises (which is how an unsupported or invalid option shows), the constructor raises
  the configuration error \<^verbatim>\<open>ValueError("Parsing kwargs do not appear valid")\<close>,
  and a caller that constructs and then loads opens no file. The constructor returns a
  loader only when the probe parse returned; when it returned (and the parser library
  is installed), the loader holds the arguments.
\<close>

theorem init_probe:
  "(bs4_installed e \<and>
    BeautifulSoup e ''<html><body>Parser builder library test.</body></html>'' kwargs = Inl ex \<longrightarrow>
      init e path enc errs custom pats exclude kwargs
        = Inl (ValueError ''Parsing kwargs do not appear valid'')
      \<and> construct_and_load e path enc errs custom pats exclude kwargs
        = (Inl (ValueError ''Parsing kwargs do not appear valid''), []))
   \<and> (init e path enc errs custom pats exclude kwargs = Inr self \<longrightarrow>
        bs4_installed e \<and>
        (\<exists>probe. BeautifulSoup e ''<html><body>Parser builder library test.</body></html>'' kwargs
                    = Inr probe))
   \<and> (bs4_installed e \<and>
       BeautifulSoup e ''<html><body>Parser builder library test.</body></html>'' kwargs = Inr probe \<longrightarrow>
        init e path enc errs custom pats exclude kwargs =
          Inr \<lparr>file_path = path, encoding = enc, errors = errs, custom_html_tag = custom,
               patterns = pats, bs_kwargs = kwargs, exclude_index_pages = exclude\<rparr>)"
  by (cases "BeautifulSoup e ''<html><body>Parser builder library test.</body></html>'' kwargs")
     (auto simp: init_def construct_and_load_def)

theorem init_probe_witness:
  "BeautifulSoup example_env ''<html><body>Parser builder library test.</body></html>''
     [(''features'', ''nonexistent'')] = Inl (Raised ''TypeError'')
   \<and> init example_env ''docs'' None None None [''*.htm'', ''*.html''] False
        [(''features'', ''nonexistent'')] = Inl (ValueError ''Parsing kwargs do not appear valid'')
   \<and> construct_and_load example_env ''docs'' None None None [''*.htm'', ''*.html''] False
        [(''features'', ''nonexistent'')]
       = (Inl (ValueError ''Parsing kwargs do not appear valid''), [])
   \<and> BeautifulSoup example_env ''<html><body>Parser builder library test.</body></html>'' []
       = Inr (document_of [])
   \<and> init example_env ''docs'' None None None [''*.htm'', ''*.html''] False []
       = Inr (example_loader None False)"
  using
    init_probe [of example_env "[(''features'', ''nonexistent'')]" "Raised ''TypeError''"
      "''docs''" None None None "[''*.htm'', ''*.html'']" False "example_loader None False"
      "document_of []"]
    init_probe [of example_env "[]" "Raised ''TypeError''"
      "''docs''" None None None "[''*.htm'', ''*.html'']" False "example_loader None False"
      "document_of []"]
  by (simp add: example_env_def example_loader_def)

section \<open>Loading\<close>

lemma load_files_ok:
  "list_all (\<lambda>p. open_read e p (encoding self) (errors self) = Inr (content p) \<and>
                 BeautifulSoup e (content p) (bs_kwargs self) = Inr (tree p))
            (filter (\<lambda>p. \<not> is_dir e p) ps) \<Longrightarrow>
   load_files e self ps st =
     (Inr (fst st @ map (\<lambda>p. \<lparr>page_content = clean_soup self (tree p), metadata = [(''source'', p)]\<rparr>)
                        (filter (\<lambda>p. \<not> is_dir e p) ps)),
      snd st @ filter (\<lambda>p. \<not> is_dir e p) ps)"
proof (induction ps arbitrary: st)
  case Nil
  show ?case by simp
next
  case (Cons p ps)
  show ?case
  proof (cases "is_dir e p")
    case True
    with Cons show ?thesis by simp
  next
    case False
    with Cons.prems have
      r: "open_read e p (encoding self) (errors self) = Inr (content p)" and
      b: "BeautifulSoup e (content p) (bs_kwargs self) = Inr (tree p)" and
      rest: "list_all (\<lambda>p. open_read e p (encoding self) (errors self) = Inr (content p) \<and>
                 BeautifulSoup e (content p) (bs_kwargs self) = Inr (tree p))
            (filter (\<lambda>p. \<not> is_dir e p) ps)"
      by simp_all
    from b have c: "clean_data e self (content p) = Inr (clean_soup self (tree p))"
      by (simp add: clean_data_def)
    from False r c show ?thesis
      by (simp add: Cons.IH [OF rest])
  qed
qed

lemma load_patterns_ok:
  "list_all (\<lambda>p. open_read e p (encoding self) (errors self) = Inr (content p) \<and>
                 BeautifulSoup e (content p) (bs_kwargs self) = Inr (tree p))
            (concat (map (\<lambda>pat. filter (\<lambda>p. \<not> is_dir e p) (rglob e (file_path self) pat)) pats)) \<Longrightarrow>
   load_patterns e self pats st =
     (Inr (fst st @ map (\<lambda>p. \<lparr>page_content = clean_soup self (tree p), metadata = [(''source'', p)]\<rparr>)
             (concat (map (\<lambda>pat. filter (\<lambda>p. \<not> is_dir e p) (rglob e (file_path self) pat)) pats))),
      snd st @ concat (map (\<lambda>pat. filter (\<lambda>p. \<not> is_dir e p) (rglob e (file_path self) pat)) pats))"
proof (induction pats arbitrary: st)
  case Nil
  show ?case by simp
next
  case (Cons pat pats)
  from Cons.prems have
    first: "list_all (\<lambda>p. open_read e p (encoding self) (errors self) = Inr (content p) \<and>
                 BeautifulSoup e (content p) (bs_kwargs self) = Inr (tree p))
            (filter (\<lambda>p. \<not> is_dir e p) (rglob e (file_path self) pat))" and
    rest: "list_all (\<lambda>p. open_read e p (encoding self) (errors self) = Inr (content p) \<and>
                 BeautifulSoup e (content p) (bs_kwargs self) = Inr (tree p))
            (concat (map (\<lambda>pat. filter (\<lambda>p. \<not> is_dir e p) (rglob e (file_path self) pat)) pats))"
    by simp_all
  show ?case
    by (simp add: load_files_ok [OF first] Cons.IH [OF rest])
qed

lemma load_files_Inr:
  "load_files e self ps st = (Inr docs, opened) \<Longrightarrow>
   map metadata docs = map metadata (fst st) @ map (\<lambda>p. [(''source'', p)]) (filter (\<lambda>p. \<not> is_dir e p) ps)
   \<and> opened = snd st @ filter (\<lambda>p. \<not> is_dir e p) ps"
proof (induction ps arbitrary: st)
  case Nil
  then show ?case by auto
next
  case (Cons p ps)
  show ?case
  proof (cases "is_dir e p")
    case True
    with Cons.prems have "load_files e self ps st = (Inr docs, opened)" by simp
    from Cons.IH [OF this] True show ?thesis by simp
  next
    case False
    with Cons.prems obtain data cleaned where
      "open_read e p (encoding self) (errors self) = Inr data"
      "clean_data e self data = Inr cleaned" and
      rest: "load_files e self ps
               (fst st @ [\<lparr>page_content = cleaned, metadata = [(''source'', p)]\<rparr>], snd st @ [p])
             = (Inr docs, opened)"
      by (auto split: sum.splits)
    from Cons.IH [OF rest] False show ?thesis by simp
  qed
qed

lemma load_patterns_Inr:
  "load_patterns e self pats st = (Inr docs, opened) \<Longrightarrow>
   map metadata docs = map metadata (fst st) @ map (\<lambda>p. [(''source'', p)])
      (concat (map (\<lambda>pat. filter (\<lambda>p. \<not> is_dir e p) (rglob e (file_path self) pat)) pats))
   \<and> opened = snd st @ concat (map (\<lambda>pat. filter (\<lambda>p. \<not> is_dir e p) (rglob e (file_path self) pat)) pats)"
proof (induction pats arbitrary: st)
  case Nil
  then show ?case by auto
next
  case (Cons pat pats)
  from Cons.prems obtain docs1 opened1 where
    1: "load_files e self (rglob e (file_path self) pat) st = (Inr docs1, opened1)" and
    2: "load_patterns e self pats (docs1, opened1) = (Inr docs, opened)"
    by (auto split: prod.splits sum.splits)
  from load_files_Inr [OF 1] Cons.IH [OF 2] show ?case by simp
qed

text \<open>
  Claim C10. \<^verbatim>\<open>load\<close> returns one document for each pair of a configured
  pattern and a non-directory path that the walker yields for it, in the order of the
  patterns and, within a pattern, of the walker; the source of a document is its path.
  When every such file can be read and parsed, the call returns these documents (and
  opens exactly these paths); whenever the call returns, the sources of its documents
  are these paths. A path that the walker yields for two patterns is there twice.
\<close>

theorem load_one_document_per_match:
  "(list_all (\<lambda>p. open_read e p (encoding self) (errors self) = Inr (content p) \<and>
                  BeautifulSoup e (content p) (bs_kwargs self) = Inr (tree p))
             (matched_files e self) \<longrightarrow>
      load e self =
        (Inr (map (\<lambda>p. \<lparr>page_content = clean_soup self (tree p), metadata = [(''source'', p)]\<rparr>)
                  (matched_files e self)),
         matched_files e self))
   \<and> (load e self = (Inr docs, opened) \<longrightarrow>
        map metadata docs = map (\<lambda>p. [(''source'', p)]) (matched_files e self)
        \<and> length docs = length (matched_files e self)
        \<and> opened = matched_files e self)
   \<and> matched_files e self =
        concat (map (\<lambda>file_pattern. filter (\<lambda>p. \<not> is_dir e p) (rglob e (file_path self) file_pattern))
                    (patterns self))"
proof -
  have a: "list_all (\<lambda>p. open_read e p (encoding self) (errors self) = Inr (content p) \<and>
                  BeautifulSoup e (content p) (bs_kwargs self) = Inr (tree p))
             (matched_files e self) \<longrightarrow>
      load e self =
        (Inr (map (\<lambda>p. \<lparr>page_content = clean_soup self (tree p), metadata = [(''source'', p)]\<rparr>)
                  (matched_files e self)),
         matched_files e self)"
    using load_patterns_ok [of e self content tree "patterns self" "([], [])"]
    by (simp add: load_def matched_files_def)
  have b: "load e self = (Inr docs, opened) \<longrightarrow>
        map metadata docs = map (\<lambda>p. [(''source'', p)]) (matched_files e self)
        \<and> opened = matched_files e self"
    using load_patterns_Inr [of e self "patterns self" "([], [])" docs opened]
    by (simp add: load_def matched_files_def)
  have c: "load e self = (Inr docs, opened) \<longrightarrow> length docs = length (matched_files e self)"
  proof
    assume "load e self = (Inr docs, opened)"
    with b have "map metadata docs = map (\<lambda>p. [(''source'', p)]) (matched_files e self)" by simp
    then have "length (map metadata docs) = length (map (\<lambda>p. [(''source'', p)]) (matched_files e self))"
      by simp
    then show "length docs = length (matched_files e self)" by simp
  qed
  have d: "matched_files e self =
        concat (map (\<lambda>file_pattern. filter (\<lambda>p. \<not> is_dir e p) (rglob e (file_path self) file_pattern))
                    (patterns self))"
    by (simp add: matched_files_def)
  from a b c d show ?thesis by blast
qed

theorem load_one_document_per_match_witness:
  "matched_files example_env ((example_loader None False)\<lparr>patterns := [''*.html'', ''a.*'']\<rparr>)
     = [''docs/a.html'', ''docs/b.html'', ''docs/a.html'']
   \<and> load example_env ((example_loader None False)\<lparr>patterns := [''*.html'', ''a.*'']\<rparr>) =
       (Inr [\<lparr>page_content = ''Hello'' @ [NL] @ ''World'', metadata = [(''source'', ''docs/a.html'')]\<rparr>,
             \<lparr>page_content = ''All text'', metadata = [(''source'', ''docs/b.html'')]\<rparr>,
             \<lparr>page_content = ''Hello'' @ [NL] @ ''World'', metadata = [(''source'', ''docs/a.html'')]\<rparr>],
        [''docs/a.html'', ''docs/b.html'', ''docs/a.html''])"
  using load_one_document_per_match
    [of example_env "(example_loader None False)\<lparr>patterns := [''*.html'', ''a.*'']\<rparr>"
        "\<lambda>p. if p = ''docs/a.html'' then ''hello'' else ''links''"
        "\<lambda>p. if p = ''docs/a.html'' then document_of [main_hello] else document_of [main_links]"
        "[\<lparr>page_content = ''Hello'' @ [NL] @ ''World'', metadata = [(''source'', ''docs/a.html'')]\<rparr>,
          \<lparr>page_content = ''All text'', metadata = [(''source'', ''docs/b.html'')]\<rparr>,
          \<lparr>page_content = ''Hello'' @ [NL] @ ''World'', metadata = [(''source'', ''docs/a.html'')]\<rparr>]"
        "[''docs/a.html'', ''docs/b.html'', ''docs/a.html'']"]
  by (simp add: example_env_def eval_defs matched_files_def)

end
